theory Spec2Isabelle
  imports Main "HOL-Library.Word" "HOL-Library.Sublist"
begin

section \<open>JavaScript strings\<close>

text \<open>
  A JavaScript string is a sequence of UTF-16 code units and \<open>.length\<close> counts code
  units, so a string is a list of 16-bit words and \<open>.length\<close> is \<^const>\<open>length\<close>.
  \<open>js\<close> embeds an ASCII literal of the source.
\<close>

type_synonym js_string = "16 word list"

definition js :: "string \<Rightarrow> js_string" where
  "js s = map (\<lambda>c. of_char c) s"

text \<open>
  \<open>String.prototype.trim\<close> removes, from both ends, the code points that ECMAScript
  calls WhiteSpace (TAB, VT, FF, ZWNBSP and the Unicode space separators) and
  LineTerminator (LF, CR, LS, PS). All of them lie in the Basic Multilingual Plane, so
  each is one code unit.
\<close>

definition isWhiteSpace :: "16 word \<Rightarrow> bool" where
  "isWhiteSpace c \<longleftrightarrow>
     c \<in> set [0x0009, 0x000B, 0x000C, 0x0020, 0x00A0, 0x1680, 0x202F, 0x205F, 0x3000, 0xFEFF]
     \<or> (0x2000 \<le> c \<and> c \<le> 0x200A)"

definition isLineTerminator :: "16 word \<Rightarrow> bool" where
  "isLineTerminator c \<longleftrightarrow> c \<in> set [0x000A, 0x000D, 0x2028, 0x2029]"

definition trim :: "js_string \<Rightarrow> js_string" where
  "trim s = (let ws = (\<lambda>c. isWhiteSpace c \<or> isLineTerminator c)
             in rev (dropWhile ws (rev (dropWhile ws s))))"

section \<open>The task store (\<open>useTodos\<close>)\<close>

text \<open>
  A task is the object \<open>{ id, text, completed }\<close>. Ids are the numbers \<open>1..4\<close> of the
  seed and the integers \<open>Date.now()\<close> returns. The fields \<open>id\<close> and \<open>text\<close> carry a
  suffix because the plain names are taken.
\<close>

record todo =
  id_t :: int
  text_t :: js_string
  completed :: bool

definition initial_todos :: "todo list" where
  "initial_todos =
     [\<lparr>id_t = 1, text_t = js ''Make a logo bigger'', completed = False\<rparr>,
      \<lparr>id_t = 2, text_t = js ''Launch the Beta version'', completed = True\<rparr>,
      \<lparr>id_t = 3, text_t = js ''Fix the car'', completed = False\<rparr>,
      \<lparr>id_t = 4, text_t = js ''Make a dinner'', completed = False\<rparr>]"

text \<open>
  Each operation hands \<open>setTodos\<close> an updater from the previous list to the next one;
  the definitions below are these updaters. \<open>addTodo\<close> reads the clock: \<open>now\<close> is the
  number \<open>Date.now()\<close> returns at the call.
\<close>

definition addTodo :: "int \<Rightarrow> js_string \<Rightarrow> todo list \<Rightarrow> todo list" where
  "addTodo now txt prevTodos =
     prevTodos @ [\<lparr>id_t = now, text_t = txt, completed = False\<rparr>]"

definition toggleTodo :: "int \<Rightarrow> todo list \<Rightarrow> todo list" where
  "toggleTodo i prevTodos =
     map (\<lambda>todo. if id_t todo = i then todo\<lparr>completed := \<not> completed todo\<rparr> else todo)
       prevTodos"

definition deleteTodo :: "int \<Rightarrow> todo list \<Rightarrow> todo list" where
  "deleteTodo i prevTodos = filter (\<lambda>todo. id_t todo \<noteq> i) prevTodos"

text \<open>Sequences of store operations, each \<open>Add\<close> with the clock reading of its call.\<close>

datatype store_op = Add int js_string | Toggle int | Delete int

fun apply_op :: "store_op \<Rightarrow> todo list \<Rightarrow> todo list" where
  "apply_op (Add now txt) ts = addTodo now txt ts"
| "apply_op (Toggle i) ts = toggleTodo i ts"
| "apply_op (Delete i) ts = deleteTodo i ts"

definition run_ops :: "store_op list \<Rightarrow> todo list \<Rightarrow> todo list" where
  "run_ops ops ts = foldl (\<lambda>s opn. apply_op opn s) ts ops"

section \<open>The entry form (\<open>AddTodoForm\<close>)\<close>

text \<open>
  The form owns two state cells, \<open>inputValue\<close> and \<open>error\<close>. A handler returns the
  cells after its setters have run. \<open>handleSubmit\<close> may also call \<open>addTodo\<close> of the
  store: the second component of its result is \<open>Some txt\<close> when it calls
  \<open>addTodo(txt)\<close> and \<open>None\<close> when it makes no call.
  The test \<open>error && ...\<close> is truthiness of a string: the string is not empty.
\<close>

record form_state =
  inputValue :: js_string
  error :: js_string

definition handleInputChange :: "js_string \<Rightarrow> form_state \<Rightarrow> form_state" where
  "handleInputChange v f =
     (let f' = f\<lparr>inputValue := v\<rparr>
      in if error f \<noteq> [] \<and> 5 \<le> length v then f'\<lparr>error := []\<rparr> else f')"

definition handleSubmit :: "form_state \<Rightarrow> form_state \<times> js_string option" where
  "handleSubmit f =
     (if length (trim (inputValue f)) < 5
      then (f\<lparr>error := js ''Task must be minimum 5 characters''\<rparr>, None)
      else (f\<lparr>inputValue := []\<rparr>, Some (trim (inputValue f))))"

definition handleKeyPress :: "js_string \<Rightarrow> form_state \<Rightarrow> form_state \<times> js_string option" where
  "handleKeyPress key f = (if key = js ''Enter'' then handleSubmit f else (f, None))"

section \<open>The application\<close>

text \<open>
  The mounted application holds the store's list and the form's cells. An event is a
  change of the input, a click on the add button, a key press in the input, a change
  of a row's checkbox or a click on a row's delete button.
\<close>

record app_state =
  todos :: "todo list"
  form :: form_state

datatype event =
    Change js_string
  | ClickAdd
  | KeyPress js_string
  | CheckboxChange int
  | ClickDelete int

definition apply_result :: "int \<Rightarrow> form_state \<times> js_string option \<Rightarrow> app_state \<Rightarrow> app_state" where
  "apply_result now r a =
     (case r of
        (f, None) \<Rightarrow> a\<lparr>form := f\<rparr>
      | (f, Some txt) \<Rightarrow> a\<lparr>form := f, todos := addTodo now txt (todos a)\<rparr>)"

fun dispatch :: "int \<Rightarrow> event \<Rightarrow> app_state \<Rightarrow> app_state" where
  "dispatch now (Change v) a = a\<lparr>form := handleInputChange v (form a)\<rparr>"
| "dispatch now ClickAdd a = apply_result now (handleSubmit (form a)) a"
| "dispatch now (KeyPress key) a = apply_result now (handleKeyPress key (form a)) a"
| "dispatch now (CheckboxChange i) a = a\<lparr>todos := toggleTodo i (todos a)\<rparr>"
| "dispatch now (ClickDelete i) a = a\<lparr>todos := deleteTodo i (todos a)\<rparr>"

definition initial_app :: app_state where
  "initial_app = \<lparr>todos = initial_todos, form = \<lparr>inputValue = [], error = []\<rparr>\<rparr>"

text \<open>
  Two tasks added at the same clock reading: the list after \<open>Buy milk\<close> and
  \<open>Walk the dog\<close> are both added while \<open>Date.now()\<close> returns \<open>1700000000000\<close>.
\<close>

definition collided_todos :: "todo list" where
  "collided_todos =
     run_ops [Add 1700000000000 (js ''Buy milk''), Add 1700000000000 (js ''Walk the dog'')]
       initial_todos"

section \<open>Evaluation on concrete inputs\<close>

lemmas store_defs = initial_todos_def addTodo_def toggleTodo_def deleteTodo_def run_ops_def
  collided_todos_def js_def

lemmas trim_defs = trim_def isWhiteSpace_def isLineTerminator_def js_def

lemma initial_todos_index:
  assumes "j < length initial_todos"
  shows "j = 0 \<or> j = 1 \<or> j = 2 \<or> j = 3"
  using assms by (auto simp: initial_todos_def)

lemma initial_todos_only_1:
  "\<forall>j<length initial_todos. id_t (initial_todos ! j) = 1 \<longrightarrow> j = 0"
proof (intro allI impI)
  fix j assume j: "j < length initial_todos" and e: "id_t (initial_todos ! j) = 1"
  from initial_todos_index [OF j] e show "j = 0" by (auto simp: initial_todos_def)
qed

lemma initial_todos_only_2:
  "\<forall>j<length initial_todos. id_t (initial_todos ! j) = 2 \<longrightarrow> j = 1"
proof (intro allI impI)
  fix j assume j: "j < length initial_todos" and e: "id_t (initial_todos ! j) = 2"
  from initial_todos_index [OF j] e show "j = 1" by (auto simp: initial_todos_def)
qed

section \<open>Toggle\<close>

lemma toggleTodo_length: "length (toggleTodo i xs) = length xs"
  by (simp add: toggleTodo_def)

lemma toggleTodo_nth:
  "k < length xs \<Longrightarrow>
   toggleTodo i xs ! k =
     (if id_t (xs ! k) = i then (xs ! k)\<lparr>completed := \<not> completed (xs ! k)\<rparr> else xs ! k)"
  by (simp add: toggleTodo_def)

text \<open>
  Claim C10: for every task list and every id, present, absent or duplicated,
  \<open>toggle\<close> keeps the length of the list, the sequence of ids and every text; an
  element can differ from the one before the call only in \<open>completed\<close> (erasing that
  field makes the two lists equal).
\<close>

theorem toggleTodo_frame:
  "length (toggleTodo i xs) = length xs
   \<and> map id_t (toggleTodo i xs) = map id_t xs
   \<and> map text_t (toggleTodo i xs) = map text_t xs
   \<and> map (\<lambda>t. t\<lparr>completed := False\<rparr>) (toggleTodo i xs) = map (\<lambda>t. t\<lparr>completed := False\<rparr>) xs"
  by (induction xs) (simp_all add: toggleTodo_def)

text \<open>
  Claim C8: for every task list and every id \<open>i\<close>, two calls of \<open>toggle(i)\<close> in
  succession give back the list they started from; in particular the \<open>completed\<close>
  flags of the tasks with id \<open>i\<close> are the original ones.
\<close>

theorem toggleTodo_twice:
  "toggleTodo i (toggleTodo i xs) = xs
   \<and> map completed (filter (\<lambda>t. id_t t = i) (toggleTodo i (toggleTodo i xs)))
       = map completed (filter (\<lambda>t. id_t t = i) xs)"
proof -
  have "toggleTodo i (toggleTodo i xs) = xs"
    by (induction xs) (simp_all add: toggleTodo_def)
  then show ?thesis by simp
qed

text \<open>
  Claim C2, as amended: for every task list and every id \<open>i\<close>, \<open>toggle(i)\<close> keeps the
  length and the order of the list, negates \<open>completed\<close> of every task whose id is \<open>i\<close>
  and leaves its id and text as they were, and leaves every task with another id
  unchanged; when exactly one task has id \<open>i\<close>, the result is the list with that one
  task replaced.
\<close>

theorem toggleTodo_flips_matching_ids:
  "length (toggleTodo i xs) = length xs
   \<and> (\<forall>k<length xs. id_t (xs ! k) = i \<longrightarrow>
          toggleTodo i xs ! k = (xs ! k)\<lparr>completed := \<not> completed (xs ! k)\<rparr>)
   \<and> (\<forall>k<length xs. id_t (xs ! k) \<noteq> i \<longrightarrow> toggleTodo i xs ! k = xs ! k)
   \<and> (\<forall>k<length xs. id_t (xs ! k) = i \<and> (\<forall>j<length xs. id_t (xs ! j) = i \<longrightarrow> j = k) \<longrightarrow>
          toggleTodo i xs = xs[k := (xs ! k)\<lparr>completed := \<not> completed (xs ! k)\<rparr>])"
proof -
  have uniq: "toggleTodo i xs = xs[k := (xs ! k)\<lparr>completed := \<not> completed (xs ! k)\<rparr>]"
    if k: "k < length xs" and idk: "id_t (xs ! k) = i"
      and only: "\<forall>j<length xs. id_t (xs ! j) = i \<longrightarrow> j = k" for k
  proof (rule nth_equalityI)
    show "length (toggleTodo i xs) = length (xs[k := (xs ! k)\<lparr>completed := \<not> completed (xs ! k)\<rparr>])"
      by (simp add: toggleTodo_length)
  next
    fix j assume "j < length (toggleTodo i xs)"
    then have j: "j < length xs" by (simp add: toggleTodo_length)
    show "toggleTodo i xs ! j = xs[k := (xs ! k)\<lparr>completed := \<not> completed (xs ! k)\<rparr>] ! j"
    proof (cases "j = k")
      case True
      with k idk show ?thesis by (simp add: toggleTodo_nth)
    next
      case False
      with only j have "id_t (xs ! j) \<noteq> i" by blast
      with False j show ?thesis by (simp add: toggleTodo_nth)
    qed
  qed
  have a: "length (toggleTodo i xs) = length xs" by (rule toggleTodo_length)
  have b: "\<forall>k<length xs. id_t (xs ! k) = i \<longrightarrow>
          toggleTodo i xs ! k = (xs ! k)\<lparr>completed := \<not> completed (xs ! k)\<rparr>"
    by (simp add: toggleTodo_nth)
  have c: "\<forall>k<length xs. id_t (xs ! k) \<noteq> i \<longrightarrow> toggleTodo i xs ! k = xs ! k"
    by (simp add: toggleTodo_nth)
  from a b c uniq show ?thesis by blast
qed

text \<open>On the seed list, toggling id 2 unchecks the second task and nothing else.\<close>

theorem toggleTodo_flips_matching_ids_witness:
  "toggleTodo 2 initial_todos =
     [\<lparr>id_t = 1, text_t = js ''Make a logo bigger'', completed = False\<rparr>,
      \<lparr>id_t = 2, text_t = js ''Launch the Beta version'', completed = False\<rparr>,
      \<lparr>id_t = 3, text_t = js ''Fix the car'', completed = False\<rparr>,
      \<lparr>id_t = 4, text_t = js ''Make a dinner'', completed = False\<rparr>]"
proof -
  have k: "1 < length initial_todos" and idk: "id_t (initial_todos ! 1) = 2"
    by (simp_all add: initial_todos_def)
  from toggleTodo_flips_matching_ids [of 2 initial_todos] k idk initial_todos_only_2
  have "toggleTodo 2 initial_todos =
      initial_todos[1 := (initial_todos ! 1)\<lparr>completed := \<not> completed (initial_todos ! 1)\<rparr>]"
    by blast
  then show ?thesis by (simp add: initial_todos_def)
qed

text \<open>
  Claim C2 as first stated fails where an id occurs twice. In the list with two tasks
  added at one clock reading, the tasks at positions 4 and 5 share their id, and one
  \<open>toggle\<close> of that id flips both: whichever of them is taken as the task toggled, the
  other one has changed too.
\<close>

theorem toggleTodo_duplicate_counterexample:
  "id_t (collided_todos ! 4) = 1700000000000
   \<and> id_t (collided_todos ! 5) = 1700000000000
   \<and> completed (toggleTodo 1700000000000 collided_todos ! 4) \<noteq> completed (collided_todos ! 4)
   \<and> completed (toggleTodo 1700000000000 collided_todos ! 5) \<noteq> completed (collided_todos ! 5)"
  by (simp add: store_defs)

section \<open>Delete\<close>

lemma deleteTodo_subseq: "subseq (deleteTodo i xs) xs"
  by (simp add: deleteTodo_def)

text \<open>
  Claim C9: for every task list, \<open>delete(i)\<close> removes every element whose id is \<open>i\<close>,
  however many there are: no task of the result has id \<open>i\<close>, the result holds exactly
  the tasks with another id, in their order, and the list is shorter by the number of
  tasks that had id \<open>i\<close>.
\<close>

theorem deleteTodo_removes_all_matching:
  "i \<notin> id_t ` set (deleteTodo i xs)
   \<and> set (deleteTodo i xs) = {t \<in> set xs. id_t t \<noteq> i}
   \<and> length (deleteTodo i xs) + length (filter (\<lambda>t. id_t t = i) xs) = length xs
   \<and> subseq (deleteTodo i xs) xs"
proof -
  have "length (deleteTodo i xs) + length (filter (\<lambda>t. id_t t = i) xs) = length xs"
    by (induction xs) (simp_all add: deleteTodo_def)
  moreover have "subseq (deleteTodo i xs) xs"
    by (rule deleteTodo_subseq)
  ultimately show ?thesis
    by (auto simp: deleteTodo_def)
qed

text \<open>Two tasks share the id of the collision; one \<open>delete\<close> removes both.\<close>

theorem deleteTodo_removes_all_matching_witness:
  "length (filter (\<lambda>t. id_t t = 1700000000000) collided_todos) = 2
   \<and> length collided_todos = 6
   \<and> length (deleteTodo 1700000000000 collided_todos) = 4
   \<and> 1700000000000 \<notin> id_t ` set (deleteTodo 1700000000000 collided_todos)"
proof -
  have two: "length (filter (\<lambda>t. id_t t = 1700000000000) collided_todos) = 2"
    and six: "length collided_todos = 6"
    by (simp_all add: store_defs)
  note all = deleteTodo_removes_all_matching [of 1700000000000 collided_todos]
  from all have gone: "1700000000000 \<notin> id_t ` set (deleteTodo 1700000000000 collided_todos)"
    by (rule conjunct1)
  from all have "length (deleteTodo 1700000000000 collided_todos)
      + length (filter (\<lambda>t. id_t t = 1700000000000) collided_todos) = length collided_todos"
    by blast
  with two six have "length (deleteTodo 1700000000000 collided_todos) = 4"
    by simp
  with two six gone show ?thesis by blast
qed

text \<open>
  Claim C3, as amended: for every task list in which exactly one task has id \<open>i\<close>,
  \<open>delete(i)\<close> removes exactly that one element (the list is one shorter) and the
  remaining elements keep their relative order.
\<close>

theorem deleteTodo_unique:
  assumes k: "k < length xs" and idk: "id_t (xs ! k) = i"
    and only: "\<forall>j<length xs. id_t (xs ! j) = i \<longrightarrow> j = k"
  shows "deleteTodo i xs = take k xs @ drop (Suc k) xs
         \<and> length (deleteTodo i xs) = length xs - 1
         \<and> subseq (deleteTodo i xs) xs"
proof -
  have before: "filter (\<lambda>t. id_t t \<noteq> i) (take k xs) = take k xs"
  proof (rule filter_True, rule ballI)
    fix t assume "t \<in> set (take k xs)"
    then obtain j where j: "j < length (take k xs)" and t: "take k xs ! j = t"
      by (auto simp: in_set_conv_nth)
    from j k have "j < k" and "j < length xs" by simp_all
    with only t show "id_t t \<noteq> i" by auto
  qed
  have after: "filter (\<lambda>t. id_t t \<noteq> i) (drop (Suc k) xs) = drop (Suc k) xs"
  proof (rule filter_True, rule ballI)
    fix t assume "t \<in> set (drop (Suc k) xs)"
    then obtain j where j: "j < length (drop (Suc k) xs)" and t: "drop (Suc k) xs ! j = t"
      by (auto simp: in_set_conv_nth)
    from j have "Suc k + j < length xs" by simp
    moreover from this t have "xs ! (Suc k + j) = t" by simp
    ultimately show "id_t t \<noteq> i" using only by auto
  qed
  have "deleteTodo i xs = deleteTodo i (take k xs @ xs ! k # drop (Suc k) xs)"
    using k by (simp add: id_take_nth_drop [symmetric])
  also have "\<dots> = take k xs @ drop (Suc k) xs"
    using idk before after by (simp add: deleteTodo_def)
  finally have eq: "deleteTodo i xs = take k xs @ drop (Suc k) xs" .
  have len: "length (deleteTodo i xs) = length xs - 1"
    using k by (simp add: eq)
  from eq len deleteTodo_subseq [of i xs] show ?thesis by simp
qed

text \<open>Deleting the first seeded task leaves the other three, in order.\<close>

theorem deleteTodo_unique_witness:
  "deleteTodo 1 initial_todos =
     [\<lparr>id_t = 2, text_t = js ''Launch the Beta version'', completed = True\<rparr>,
      \<lparr>id_t = 3, text_t = js ''Fix the car'', completed = False\<rparr>,
      \<lparr>id_t = 4, text_t = js ''Make a dinner'', completed = False\<rparr>]
   \<and> length (deleteTodo 1 initial_todos) = length initial_todos - 1"
proof -
  have k: "0 < length initial_todos" and idk: "id_t (initial_todos ! 0) = 1"
    by (simp_all add: initial_todos_def)
  from deleteTodo_unique [OF k idk initial_todos_only_1]
  have "deleteTodo 1 initial_todos = take 0 initial_todos @ drop (Suc 0) initial_todos"
    and "length (deleteTodo 1 initial_todos) = length initial_todos - 1"
    by simp_all
  then show ?thesis by (simp add: initial_todos_def)
qed

text \<open>
  Claim C3 as first stated fails where an id occurs twice: the list with two tasks added
  at one clock reading has six tasks, it contains a task with the id of the collision,
  and \<open>delete\<close> of that id leaves four tasks, not five.
\<close>

theorem deleteTodo_duplicate_counterexample:
  "id_t (collided_todos ! 4) = 1700000000000
   \<and> length collided_todos = 6
   \<and> length (deleteTodo 1700000000000 collided_todos) = 4"
  by (simp add: store_defs)

section \<open>Ids that are not in the list\<close>

text \<open>
  Claim C7: for every task list and every id \<open>i\<close> that no task of the list has, both
  \<open>toggle(i)\<close> and \<open>delete(i)\<close> return the list unchanged, and the application after the
  event is the application before it: no error cell is set and nothing else changes.
\<close>

theorem absent_id_noop:
  assumes "i \<notin> id_t ` set (todos a)"
  shows "toggleTodo i (todos a) = todos a
         \<and> deleteTodo i (todos a) = todos a
         \<and> dispatch now (CheckboxChange i) a = a
         \<and> dispatch now (ClickDelete i) a = a"
proof -
  from assms have ne: "\<forall>t\<in>set (todos a). id_t t \<noteq> i" by auto
  then have tog: "toggleTodo i (todos a) = todos a"
    unfolding toggleTodo_def by (intro map_idI) simp
  from ne have del: "deleteTodo i (todos a) = todos a"
    by (simp add: deleteTodo_def)
  from tog del show ?thesis by simp
qed

theorem absent_id_noop_witness:
  "(99::int) \<notin> id_t ` set (todos initial_app)
   \<and> toggleTodo 99 initial_todos = initial_todos
   \<and> deleteTodo 99 initial_todos = initial_todos
   \<and> dispatch 1700000000000 (CheckboxChange 99) initial_app = initial_app
   \<and> dispatch 1700000000000 (ClickDelete 99) initial_app = initial_app"
proof -
  have h: "(99::int) \<notin> id_t ` set (todos initial_app)"
    by (simp add: initial_app_def initial_todos_def)
  have t: "todos initial_app = initial_todos"
    by (simp add: initial_app_def)
  from absent_id_noop [OF h, of 1700000000000] h t show ?thesis by simp
qed

section \<open>Submitting the form\<close>

text \<open>
  Claim C1: for every task list and every input whose trimmed length is at least 5,
  a submission (the add button, or Enter in the input) makes exactly one call of
  \<open>addTodo\<close>, with the trimmed text: the list grows by one, the tasks that were
  there are unchanged and in place, and the new last task has the trimmed text and
  is not completed. The input is cleared.
\<close>

theorem submit_valid_adds_trimmed:
  assumes valid: "5 \<le> length (trim (inputValue (form a)))"
    and ev: "ev = ClickAdd \<or> ev = KeyPress (js ''Enter'')"
  shows "snd (handleSubmit (form a)) = Some (trim (inputValue (form a)))
         \<and> todos (dispatch now ev a) = addTodo now (trim (inputValue (form a))) (todos a)
         \<and> length (todos (dispatch now ev a)) = length (todos a) + 1
         \<and> take (length (todos a)) (todos (dispatch now ev a)) = todos a
         \<and> text_t (last (todos (dispatch now ev a))) = trim (inputValue (form a))
         \<and> completed (last (todos (dispatch now ev a))) = False
         \<and> inputValue (form (dispatch now ev a)) = []"
proof -
  from valid have hs: "handleSubmit (form a) =
      ((form a)\<lparr>inputValue := []\<rparr>, Some (trim (inputValue (form a))))"
    by (simp add: handleSubmit_def)
  have "dispatch now ev a = apply_result now (handleSubmit (form a)) a"
    using ev by (auto simp: handleKeyPress_def)
  with hs have d: "dispatch now ev a =
      a\<lparr>form := (form a)\<lparr>inputValue := []\<rparr>,
        todos := addTodo now (trim (inputValue (form a))) (todos a)\<rparr>"
    by (simp add: apply_result_def)
  show ?thesis
    by (simp add: d hs addTodo_def)
qed

text \<open>The input \<open>Buy milk\<close>, typed with blanks around it, submitted on the seed list.\<close>

theorem submit_valid_adds_trimmed_witness:
  "5 \<le> length (trim (js ''  Buy milk ''))
   \<and> todos (dispatch 1700000000000 ClickAdd
        (initial_app\<lparr>form := \<lparr>inputValue = js ''  Buy milk '', error = []\<rparr>\<rparr>))
      = initial_todos @ [\<lparr>id_t = 1700000000000, text_t = js ''Buy milk'', completed = False\<rparr>]"
proof -
  let ?a = "initial_app\<lparr>form := \<lparr>inputValue = js ''  Buy milk '', error = []\<rparr>\<rparr>"
  have tr: "trim (js ''  Buy milk '') = js ''Buy milk''"
    by (simp add: trim_defs)
  have five: "5 \<le> length (trim (js ''  Buy milk ''))"
    by (simp add: tr) (simp add: js_def)
  then have valid: "5 \<le> length (trim (inputValue (form ?a)))"
    by simp
  from submit_valid_adds_trimmed [OF valid, of ClickAdd 1700000000000]
  have "todos (dispatch 1700000000000 ClickAdd ?a)
      = addTodo 1700000000000 (trim (inputValue (form ?a))) (todos ?a)"
    by simp
  then have "todos (dispatch 1700000000000 ClickAdd ?a)
      = initial_todos @ [\<lparr>id_t = 1700000000000, text_t = js ''Buy milk'', completed = False\<rparr>]"
    by (simp add: tr addTodo_def initial_app_def)
  with five show ?thesis by simp
qed

text \<open>
  Claim C4: for every input whose trimmed length is below 5, a submission makes no call
  of \<open>addTodo\<close>, leaves the task list and the text of the input as they were, and sets
  the error message to the fixed string \<open>Task must be minimum 5 characters\<close>.
\<close>

theorem submit_short_rejected:
  assumes short: "length (trim (inputValue (form a))) < 5"
    and ev: "ev = ClickAdd \<or> ev = KeyPress (js ''Enter'')"
  shows "snd (handleSubmit (form a)) = None
         \<and> todos (dispatch now ev a) = todos a
         \<and> inputValue (form (dispatch now ev a)) = inputValue (form a)
         \<and> error (form (dispatch now ev a)) = js ''Task must be minimum 5 characters''"
proof -
  from short have hs: "handleSubmit (form a) =
      ((form a)\<lparr>error := js ''Task must be minimum 5 characters''\<rparr>, None)"
    by (simp add: handleSubmit_def)
  have "dispatch now ev a = apply_result now (handleSubmit (form a)) a"
    using ev by (auto simp: handleKeyPress_def)
  with hs have d: "dispatch now ev a =
      a\<lparr>form := (form a)\<lparr>error := js ''Task must be minimum 5 characters''\<rparr>\<rparr>"
    by (simp add: apply_result_def)
  show ?thesis
    by (simp add: d hs)
qed

text \<open>The input \<open>ok\<close>, submitted with Enter on the seed list.\<close>

theorem submit_short_rejected_witness:
  "length (trim (js ''ok'')) < 5
   \<and> dispatch 1700000000000 (KeyPress (js ''Enter''))
        (initial_app\<lparr>form := \<lparr>inputValue = js ''ok'', error = []\<rparr>\<rparr>)
      = \<lparr>todos = initial_todos,
         form = \<lparr>inputValue = js ''ok'', error = js ''Task must be minimum 5 characters''\<rparr>\<rparr>"
proof -
  let ?a = "initial_app\<lparr>form := \<lparr>inputValue = js ''ok'', error = []\<rparr>\<rparr>"
  let ?b = "dispatch 1700000000000 (KeyPress (js ''Enter'')) ?a"
  have tr: "length (trim (js ''ok'')) < 5"
    by (simp add: trim_defs)
  then have short: "length (trim (inputValue (form ?a))) < 5"
    by simp
  from submit_short_rejected [OF short, of "KeyPress (js ''Enter'')" 1700000000000]
  have "todos ?b = initial_todos" and "inputValue (form ?b) = js ''ok''"
    and "error (form ?b) = js ''Task must be minimum 5 characters''"
    by (simp_all add: initial_app_def)
  then have "?b = \<lparr>todos = initial_todos,
         form = \<lparr>inputValue = js ''ok'', error = js ''Task must be minimum 5 characters''\<rparr>\<rparr>"
    by (cases "?b", cases "form ?b") simp
  with tr show ?thesis by simp
qed

section \<open>Typing while an error is shown\<close>

lemma trim_length_le: "length (trim s) \<le> length s"
proof -
  have "length (trim s) \<le> length (dropWhile (\<lambda>c. isWhiteSpace c \<or> isLineTerminator c) s)"
    unfolding trim_def Let_def length_rev
    by (metis length_dropWhile_le length_rev)
  also have "\<dots> \<le> length s" by (rule length_dropWhile_le)
  finally show ?thesis .
qed

text \<open>
  \<open>handleInputChange\<close> compares the length of the text as typed, not of the trimmed
  text: after a keystroke the error is empty exactly when the typed text has five code
  units or more, or the error was empty before.
\<close>

lemma handleInputChange_error:
  "error (handleInputChange v f) = (if 5 \<le> length v then [] else error f)"
  by (simp add: handleInputChange_def Let_def)

lemma handleInputChange_clears_when_trimmed_valid:
  "5 \<le> length (trim v) \<Longrightarrow> error (handleInputChange v f) = []"
  using trim_length_le [of v] by (simp add: handleInputChange_error)

text \<open>
  Claim C6 says that, on a keystroke while the error is shown, the error is cleared when
  the trimmed length of the new text is at least 5 and stays when it is still below 5.
  The first half holds (\<open>handleInputChange_clears_when_trimmed_valid\<close>). The second
  does not: with the error shown, typing a fourth blank after \<open>a\<close> and three blanks
  gives a text of five code units whose trimmed length is 1, and the error is cleared.
  A submission of that text is rejected by \<open>handleSubmit\<close>, which trims.
\<close>

theorem error_cleared_on_padded_input:
  "length (trim (js ''a    '')) = 1
   \<and> error (handleInputChange (js ''a    '')
        \<lparr>inputValue = js ''a   '', error = js ''Task must be minimum 5 characters''\<rparr>) = []
   \<and> snd (handleSubmit (handleInputChange (js ''a    '')
        \<lparr>inputValue = js ''a   '', error = js ''Task must be minimum 5 characters''\<rparr>)) = None"
  by (simp add: handleInputChange_def handleSubmit_def trim_defs)

section \<open>Uniqueness of ids\<close>

text \<open>
  \<open>toggle\<close> and \<open>delete\<close> keep the ids pairwise distinct, and so does \<open>add\<close> when the
  clock reading is not the id of a task in the list.
\<close>

lemma apply_op_distinct_when_fresh:
  assumes "distinct (map id_t ts)"
    and "\<And>now tx. opn = Add now tx \<Longrightarrow> now \<notin> id_t ` set ts"
  shows "distinct (map id_t (apply_op opn ts))"
proof (cases opn)
  case (Add now tx)
  with assms show ?thesis by (simp add: addTodo_def)
next
  case (Toggle i)
  have "map id_t (toggleTodo i ts) = map id_t ts"
    by (induction ts) (simp_all add: toggleTodo_def)
  with assms Toggle show ?thesis by simp
next
  case (Delete i)
  with assms show ?thesis by (simp add: deleteTodo_def distinct_map_filter)
qed

text \<open>
  Claim C5 says that the ids are pairwise distinct in every list reachable from the seed
  by \<open>add\<close>, \<open>toggle\<close> and \<open>delete\<close>. \<open>addTodo\<close> takes the id from \<open>Date.now()\<close> and
  checks nothing: two adds at the same clock reading give two tasks with one id.
\<close>

theorem collided_ids_not_distinct:
  "map id_t (run_ops [Add 1700000000000 (js ''Buy milk''),
                      Add 1700000000000 (js ''Walk the dog'')] initial_todos)
     = [1, 2, 3, 4, 1700000000000, 1700000000000]
   \<and> \<not> distinct (map id_t (run_ops [Add 1700000000000 (js ''Buy milk''),
                      Add 1700000000000 (js ''Walk the dog'')] initial_todos))"
  by (simp add: store_defs)

end
